theory Spec2Isabelle
  imports Main
begin

section \<open>Python values\<close>

text \<open>
  The relay is a Python program. A Python \<open>str\<close> is modelled as an Isabelle \<open>string\<close>
  whose characters are read as the code points U+0000 to U+00FF, so an index into the
  list is the index Python uses. Exceptions are values of \<open>py_error\<close>; a call that can
  raise returns \<open>py_error + 'a\<close> with \<open>Inl\<close> for the exception.
\<close>

datatype py_error = ValueError | KeyError | IndexError | NotModelled

definition newline :: char where
  "newline = CHR 0x0A"

definition backslash :: char where
  "backslash = CHR 0x5C"

text \<open>\<open>s.lower()\<close>: the upper-case letters below U+0100 are A to Z and U+00C0 to U+00DE
  without the multiplication sign U+00D7; each is 32 below its lower-case letter. Bit 5
  (of value 32) is clear in every one of them, so adding 32 sets that bit.\<close>

definition is_upper :: "char \<Rightarrow> bool" where
  "is_upper c \<longleftrightarrow>
     (let n = (of_char c :: nat) in
      (65 \<le> n \<and> n \<le> 90) \<or> (192 \<le> n \<and> n \<le> 222 \<and> n \<noteq> 215))"

fun set_bit5 :: "char \<Rightarrow> char" where
  "set_bit5 (Char b0 b1 b2 b3 b4 b5 b6 b7) = Char b0 b1 b2 b3 b4 True b6 b7"

definition py_lower_char :: "char \<Rightarrow> char" where
  "py_lower_char c = (if is_upper c then set_bit5 c else c)"

definition py_lower :: "string \<Rightarrow> string" where
  "py_lower s = map py_lower_char s"

text \<open>\<open>sub in s\<close> on strings: \<open>sub\<close> occurs in \<open>s\<close> as a contiguous run.\<close>

fun starts_with :: "string \<Rightarrow> string \<Rightarrow> bool" where
  "starts_with [] s = True"
| "starts_with (c # cs) [] = False"
| "starts_with (c # cs) (d # ds) = (c = d \<and> starts_with cs ds)"

fun py_in :: "string \<Rightarrow> string \<Rightarrow> bool" where
  "py_in sub [] = (sub = [])"
| "py_in sub (c # cs) = (starts_with sub (c # cs) \<or> py_in sub cs)"

text \<open>\<open>s[a:b]\<close> for indices that are not negative: Python clamps both ends to the
  string and gives the empty string when \<open>b \<le> a\<close>.\<close>

definition slice :: "string \<Rightarrow> nat \<Rightarrow> nat \<Rightarrow> string" where
  "slice s a b = take (b - a) (drop a s)"

text \<open>\<open>s.rstrip('/')\<close>.\<close>

definition rstrip_slash :: "string \<Rightarrow> string" where
  "rstrip_slash s = rev (dropWhile (\<lambda>c. c = CHR ''/'') (rev s))"

text \<open>\<open>str(i)\<close> for an integer: decimal digits, with a minus sign below zero.\<close>

definition digit_char :: "nat \<Rightarrow> char" where
  "digit_char d = ''0123456789'' ! d"

fun dec_digits :: "nat \<Rightarrow> string" where
  "dec_digits n = (if n < 10 then [digit_char n] else dec_digits (n div 10) @ [digit_char (n mod 10)])"

declare dec_digits.simps [simp del]

definition py_str :: "int \<Rightarrow> string" where
  "py_str i = (if i < 0 then CHR ''-'' # dec_digits (nat (- i)) else dec_digits (nat i))"

subsection \<open>\<open>urllib.parse.quote_plus\<close>\<close>

text \<open>
  \<open>quote_plus(s)\<close> encodes \<open>s\<close> as UTF-8, keeps the bytes of letters, digits and
  \<open>_.-~\<close>, writes a space as \<open>+\<close> and every other byte as \<open>%XX\<close> with upper-case
  hexadecimal digits. A code point below U+0080 is one byte, one from U+0080 to U+00FF two.
\<close>

definition always_safe :: "nat \<Rightarrow> bool" where
  "always_safe b \<longleftrightarrow>
     (65 \<le> b \<and> b \<le> 90) \<or> (97 \<le> b \<and> b \<le> 122) \<or> (48 \<le> b \<and> b \<le> 57) \<or>
     b = 95 \<or> b = 46 \<or> b = 45 \<or> b = 126"

definition hex_digit :: "nat \<Rightarrow> char" where
  "hex_digit d = ''0123456789ABCDEF'' ! d"

definition percent_byte :: "nat \<Rightarrow> string" where
  "percent_byte b = [CHR ''%'', hex_digit (b div 16), hex_digit (b mod 16)]"

definition quote_char :: "char \<Rightarrow> string" where
  "quote_char c =
     (let n = (of_char c :: nat) in
      if n < 128
      then (if always_safe n then [c] else if n = 32 then ''+'' else percent_byte n)
      else percent_byte (192 + n div 64) @ percent_byte (128 + n mod 64))"

definition quote_plus :: "string \<Rightarrow> string" where
  "quote_plus s = concat (map quote_char s)"

subsection \<open>Library calls taken as parameters\<close>

text \<open>
  Two calls of the standard library decide by rules that are not part of the repository:
  \<open>urlparse(url)\<close>, of which the program reads \<open>netloc\<close> and which raises on some
  inputs, and \<open>template.format(**subs)\<close>. Both are fields of \<open>pylib\<close>, and every result
  below holds for any behaviour of the two.
\<close>

record pylib =
  urlparse_netloc :: "string \<Rightarrow> py_error + string"
  str_format :: "string \<Rightarrow> (string \<times> string) list \<Rightarrow> py_error + string"

text \<open>
  A reference behaviour of \<open>urlparse\<close>, following \<open>urllib.parse.urlsplit\<close>: leading
  control characters and spaces are stripped, tab, carriage return and line feed are
  removed, a scheme is split off at the first colon, and after \<open>//\<close> the netloc runs to
  the first of \<open>/\<close>, \<open>?\<close>, \<open>#\<close>. A netloc with one kind of square bracket and not the
  other raises \<open>ValueError\<close> (Invalid IPv6 URL). The validation of what stands between
  matching brackets is left out: the reference is only applied to inputs without them.
\<close>

definition c0_control_or_space :: "char \<Rightarrow> bool" where
  "c0_control_or_space c \<longleftrightarrow> (of_char c :: nat) \<le> 32"

definition unsafe_url_byte :: "char \<Rightarrow> bool" where
  "unsafe_url_byte c \<longleftrightarrow> (of_char c :: nat) = 9 \<or> (of_char c :: nat) = 13 \<or> (of_char c :: nat) = 10"

definition ascii_alpha :: "char \<Rightarrow> bool" where
  "ascii_alpha c \<longleftrightarrow>
     (let n = (of_char c :: nat) in (65 \<le> n \<and> n \<le> 90) \<or> (97 \<le> n \<and> n \<le> 122))"

definition scheme_char :: "char \<Rightarrow> bool" where
  "scheme_char c \<longleftrightarrow>
     (let n = (of_char c :: nat) in
      (65 \<le> n \<and> n \<le> 90) \<or> (97 \<le> n \<and> n \<le> 122) \<or> (48 \<le> n \<and> n \<le> 57) \<or>
      n = 43 \<or> n = 45 \<or> n = 46)"

definition strip_scheme :: "string \<Rightarrow> string" where
  "strip_scheme url =
     (let pre = takeWhile (\<lambda>c. c \<noteq> CHR '':'') url in
      if List.member url (CHR '':'') \<and> pre \<noteq> [] \<and> ascii_alpha (hd pre) \<and> list_all scheme_char pre
      then drop (length pre + 1) url else url)"

definition netloc_delim :: "char \<Rightarrow> bool" where
  "netloc_delim c \<longleftrightarrow> c = CHR ''/'' \<or> c = CHR ''?'' \<or> c = CHR ''#''"

definition urlsplit_netloc :: "string \<Rightarrow> py_error + string" where
  "urlsplit_netloc url0 =
     (let url1 = dropWhile c0_control_or_space url0;
          url2 = filter (\<lambda>c. \<not> unsafe_url_byte c) url1;
          url3 = strip_scheme url2
      in if take 2 url3 = ''//''
         then (let netloc = takeWhile (\<lambda>c. \<not> netloc_delim c) (drop 2 url3) in
               if List.member netloc (CHR ''['') \<noteq> List.member netloc (CHR '']'')
               then Inl ValueError else Inr netloc)
         else Inr [])"

text \<open>
  A reference behaviour of \<open>str.format\<close> with keyword arguments only, on templates whose
  replacement fields are plain names: \<open>{{\<close> and \<open>}}\<close> are literal braces, \<open>{name}\<close> is
  replaced by the value of \<open>name\<close>, an unknown name raises \<open>KeyError\<close>, an empty or
  numeric name \<open>IndexError\<close> (there are no positional arguments), a lone brace
  \<open>ValueError\<close>. A field with a conversion, a format specification, an attribute or an
  index is outside the reference (\<open>NotModelled\<close>).
\<close>

definition sum_prepend :: "string \<Rightarrow> py_error + string \<Rightarrow> py_error + string" where
  "sum_prepend p r = (case r of Inl e \<Rightarrow> Inl e | Inr s \<Rightarrow> Inr (p @ s))"

definition plain_name_char :: "char \<Rightarrow> bool" where
  "plain_name_char c \<longleftrightarrow>
     \<not> (c = CHR ''!'' \<or> c = CHR '':'' \<or> c = CHR ''.'' \<or> c = CHR ''['' \<or> c = CHR ''{'')"

definition digit :: "char \<Rightarrow> bool" where
  "digit c \<longleftrightarrow> 48 \<le> (of_char c :: nat) \<and> (of_char c :: nat) \<le> 57"

definition get_field :: "(string \<times> string) list \<Rightarrow> string \<Rightarrow> py_error + string" where
  "get_field subs name =
     (if \<not> list_all plain_name_char name then Inl NotModelled
      else if list_all digit name then Inl IndexError
      else (case map_of subs name of None \<Rightarrow> Inl KeyError | Some v \<Rightarrow> Inr v))"

fun format_from :: "(string \<times> string) list \<Rightarrow> string option \<Rightarrow> string \<Rightarrow> py_error + string" where
  "format_from subs None [] = Inr []"
| "format_from subs (Some name) [] = Inl ValueError"
| "format_from subs (Some name) (c # cs) =
     (if c = CHR ''}''
      then (case get_field subs name of
              Inl e \<Rightarrow> Inl e
            | Inr v \<Rightarrow> sum_prepend v (format_from subs None cs))
      else format_from subs (Some (name @ [c])) cs)"
| "format_from subs None [c] =
     (if c = CHR ''{'' \<or> c = CHR ''}'' then Inl ValueError else Inr [c])"
| "format_from subs None (c # d # cs) =
     (if c = CHR ''{''
      then (if d = CHR ''{'' then sum_prepend [c] (format_from subs None cs)
            else format_from subs (Some []) (d # cs))
      else if c = CHR ''}''
      then (if d = CHR ''}'' then sum_prepend [c] (format_from subs None cs)
            else Inl ValueError)
      else sum_prepend [c] (format_from subs None (d # cs)))"

definition format_kwargs :: "string \<Rightarrow> (string \<times> string) list \<Rightarrow> py_error + string" where
  "format_kwargs template subs = format_from subs None template"

definition cpython :: pylib where
  "cpython = \<lparr> urlparse_netloc = urlsplit_netloc, str_format = format_kwargs \<rparr>"

section \<open>Configuration\<close>

text \<open>
  The module reads its configuration from the environment once, at import. \<open>DEST_LIST\<close>
  is the list the module computes from \<open>DEST_CHANNELS\<close>; an unset variable is the empty
  string.
\<close>

record config =
  SOURCE_CHANNEL_ID :: string
  DEST_LIST :: "string list"
  REDIRECT_BASE :: string
  CAPTION_TEMPLATE :: string
  FOOTER_TEXT :: string

section \<open>Dedupe store\<close>

text \<open>
  The table \<open>forwarded\<close> has the primary key \<open>(source_chat_id, source_message_id)\<close>, so
  its rows are a set of keys; \<open>INSERT OR REPLACE\<close> leaves one row for a key. The column
  \<open>forwarded_at\<close> is not read by the program.
\<close>

type_synonym store = "(string \<times> int) set"

definition already_forwarded :: "store \<Rightarrow> int \<Rightarrow> int \<Rightarrow> bool" where
  "already_forwarded db chat_id msg_id \<longleftrightarrow> (py_str chat_id, msg_id) \<in> db"

definition mark_forwarded :: "store \<Rightarrow> int \<Rightarrow> int \<Rightarrow> store" where
  "mark_forwarded db chat_id msg_id = insert (py_str chat_id, msg_id) db"

section \<open>Terabox detection and redirect\<close>

definition TERABOX_RE_FRAGMENT :: string where
  "TERABOX_RE_FRAGMENT = ''terabox''"

definition is_terabox_url :: "pylib \<Rightarrow> string \<Rightarrow> bool" where
  "is_terabox_url lib url =
     (case urlparse_netloc lib url of
        Inl e \<Rightarrow> False
      | Inr netloc \<Rightarrow>
          py_in TERABOX_RE_FRAGMENT (py_lower netloc) \<or> py_in TERABOX_RE_FRAGMENT (py_lower url))"

definition build_redirect :: "config \<Rightarrow> string \<Rightarrow> string" where
  "build_redirect cfg original_url =
     (if REDIRECT_BASE cfg = [] then original_url
      else rstrip_slash (REDIRECT_BASE cfg) @ ''/?u='' @ quote_plus original_url)"

section \<open>Entity rewrite and link extraction\<close>

text \<open>
  A \<open>MessageEntity\<close>: the program reads \<open>offset\<close>, \<open>length\<close>, \<open>type\<close> (a string) and
  \<open>url\<close> (absent unless the entity is a text link). Offsets and lengths are not negative.
\<close>

record entity =
  ent_offset :: nat
  ent_length :: nat
  ent_type :: string
  ent_url :: "string option"

text \<open>The truth value Python gives an optional string: false for \<open>None\<close> and for \<open>""\<close>.\<close>

definition truthy :: "string option \<Rightarrow> bool" where
  "truthy v = (case v of None \<Rightarrow> False | Some s \<Rightarrow> s \<noteq> [])"

definition redirect_if_terabox :: "pylib \<Rightarrow> config \<Rightarrow> string \<Rightarrow> string" where
  "redirect_if_terabox lib cfg u = (if is_terabox_url lib u then build_redirect cfg u else u)"

text \<open>One round of the loop of \<open>replace_entities_in_text\<close>, on the state \<open>(pieces, last)\<close>.\<close>

definition rewrite_entity ::
  "pylib \<Rightarrow> config \<Rightarrow> string \<Rightarrow> entity \<Rightarrow> string list \<times> nat \<Rightarrow> string list \<times> nat" where
  "rewrite_entity lib cfg txt ent st =
     (let pieces = fst st; last = snd st;
          s = ent_offset ent;
          e = s + ent_length ent;
          pieces1 = pieces @ [slice txt last s];
          ent_text = slice txt s e;
          pieces2 =
            (if ent_type ent = ''url'' then pieces1 @ [redirect_if_terabox lib cfg ent_text]
             else if ent_type ent = ''text_link'' \<and> truthy (ent_url ent)
             then pieces1 @ [redirect_if_terabox lib cfg (the (ent_url ent))]
             else pieces1 @ [ent_text])
      in (pieces2, e))"

definition replace_entities_in_text ::
  "pylib \<Rightarrow> config \<Rightarrow> string \<Rightarrow> entity list option \<Rightarrow> string" where
  "replace_entities_in_text lib cfg txt entities =
     (case entities of
        None \<Rightarrow> txt
      | Some ents \<Rightarrow>
          if ents = [] then txt
          else (let st = fold (rewrite_entity lib cfg txt) (sort_key ent_offset ents) ([], 0)
                in concat (fst st @ [drop (snd st) txt])))"

text \<open>One round of the loop of \<open>extract_terabox_links_from_entities\<close>, on \<open>links\<close>.\<close>

definition extract_entity :: "pylib \<Rightarrow> string \<Rightarrow> entity \<Rightarrow> string list \<Rightarrow> string list" where
  "extract_entity lib txt ent links =
     (if ent_type ent = ''url''
      then (let raw = slice txt (ent_offset ent) (ent_offset ent + ent_length ent) in
            if is_terabox_url lib raw then links @ [raw] else links)
      else if ent_type ent = ''text_link'' \<and> truthy (ent_url ent)
      then (if is_terabox_url lib (the (ent_url ent)) then links @ [the (ent_url ent)] else links)
      else links)"

definition extract_terabox_links_from_entities ::
  "pylib \<Rightarrow> string \<Rightarrow> entity list option \<Rightarrow> string list" where
  "extract_terabox_links_from_entities lib txt entities =
     (case entities of
        None \<Rightarrow> []
      | Some ents \<Rightarrow> fold (extract_entity lib txt) ents [])"

section \<open>Inline keyboards\<close>

text \<open>
  Of an \<open>InlineKeyboardButton\<close> the program reads \<open>text\<close>, \<open>url\<close> and \<open>callback_data\<close>,
  and it builds buttons from these three. An \<open>InlineKeyboardMarkup\<close> is its rows; as an
  object it is true in a condition whatever its rows are.
\<close>

record button =
  btn_text :: string
  btn_url :: "string option"
  btn_callback_data :: "string option"

type_synonym markup = "button list list"

definition or_else :: "string \<Rightarrow> string \<Rightarrow> string" where
  "or_else s d = (if s = [] then d else s)"

definition convert_button :: "pylib \<Rightarrow> config \<Rightarrow> button \<Rightarrow> button" where
  "convert_button lib cfg btn =
     (if truthy (btn_url btn)
      then \<lparr> btn_text = or_else (btn_text btn) ''link'',
             btn_url = Some (redirect_if_terabox lib cfg (the (btn_url btn))),
             btn_callback_data = None \<rparr>
      else \<lparr> btn_text = or_else (btn_text btn) ''btn'',
             btn_url = None,
             btn_callback_data =
               Some (if truthy (btn_callback_data btn) then the (btn_callback_data btn) else ''noop'') \<rparr>)"

definition convert_inline_markup :: "pylib \<Rightarrow> config \<Rightarrow> markup option \<Rightarrow> markup option" where
  "convert_inline_markup lib cfg reply_markup =
     (case reply_markup of
        None \<Rightarrow> None
      | Some rows \<Rightarrow> Some (map (map (convert_button lib cfg)) rows))"

section \<open>Caption\<close>

definition caption_fallback_separator :: string where
  "caption_fallback_separator = [backslash, CHR ''n'', backslash, CHR ''n'']"

definition build_caption :: "pylib \<Rightarrow> config \<Rightarrow> string \<Rightarrow> string \<Rightarrow> int \<Rightarrow> string" where
  "build_caption lib cfg original_text src_channel src_msg_id =
     (let subs = [(''original_text'', original_text),
                  (''source_channel'', src_channel),
                  (''source_msg_id'', py_str src_msg_id),
                  (''footer'', FOOTER_TEXT cfg)]
      in case str_format lib (CAPTION_TEMPLATE cfg) subs of
           Inr rendered \<Rightarrow> rendered
         | Inl e \<Rightarrow> original_text @ caption_fallback_separator @ FOOTER_TEXT cfg)"

section \<open>The handler\<close>

text \<open>
  A channel post, with the fields \<open>handle_channel_post\<close> reads. \<open>photo\<close> is the list of
  the file ids of the photo's sizes (empty when the post has no photo); each other kind of
  media is the file id of its object when the post carries one.
\<close>

record message =
  msg_chat_id :: int
  msg_message_id :: int
  msg_text :: "string option"
  msg_entities :: "entity list"
  msg_caption :: "string option"
  msg_caption_entities :: "entity list"
  msg_reply_markup :: "markup option"
  msg_photo :: "string list"
  msg_document :: "string option"
  msg_video :: "string option"
  msg_audio :: "string option"
  msg_voice :: "string option"
  msg_sticker :: "string option"

text \<open>
  The calls on \<open>ctx.bot\<close>, each with the arguments the handler passes: the destination
  first, then the file id, the caption and the reply markup where the call has them.
\<close>

datatype call =
    SendPhoto string string "string option" "markup option"
  | SendDocument string string "string option" "markup option"
  | SendVideo string string "string option" "markup option"
  | SendAudio string string "string option" "markup option"
  | SendVoice string string "string option" "markup option"
  | SendSticker string string
  | SendMessage string string "markup option"
  | ForwardMessage string int int

fun call_dest :: "call \<Rightarrow> string" where
  "call_dest (SendPhoto d f c m) = d"
| "call_dest (SendDocument d f c m) = d"
| "call_dest (SendVideo d f c m) = d"
| "call_dest (SendAudio d f c m) = d"
| "call_dest (SendVoice d f c m) = d"
| "call_dest (SendSticker d f) = d"
| "call_dest (SendMessage d t m) = d"
| "call_dest (ForwardMessage d c i) = d"

fun call_markup :: "call \<Rightarrow> markup option" where
  "call_markup (SendPhoto d f c m) = m"
| "call_markup (SendDocument d f c m) = m"
| "call_markup (SendVideo d f c m) = m"
| "call_markup (SendAudio d f c m) = m"
| "call_markup (SendVoice d f c m) = m"
| "call_markup (SendSticker d f) = None"
| "call_markup (SendMessage d t m) = m"
| "call_markup (ForwardMessage d c i) = None"

text \<open>
  The delivery service is outside the program: a call, made in a state \<open>'w\<close> of the
  service, returns (\<open>True\<close>) or raises an exception (\<open>False\<close>) and leaves a new state.
  What the handler does is recorded as a list of events: each call with its outcome, and
  the write to the dedupe store.
\<close>

type_synonym 'w bot_api = "call \<Rightarrow> 'w \<Rightarrow> bool \<times> 'w"

datatype event = Attempt call bool | Commit string int

text \<open>The text and entities the handler works on: the text if there is one, else the
  caption, else the empty string with no entity list.\<close>

definition post_text :: "message \<Rightarrow> string \<times> entity list option" where
  "post_text msg =
     (if truthy (msg_text msg) then (the (msg_text msg), Some (msg_entities msg))
      else if truthy (msg_caption msg) then (the (msg_caption msg), Some (msg_caption_entities msg))
      else ([], None))"

text \<open>One round of the loop over \<open>terabox_links\<close>, on the state \<open>(seen, tb_buttons)\<close>.\<close>

definition terabox_button :: "config \<Rightarrow> string \<Rightarrow> button" where
  "terabox_button cfg l =
     \<lparr> btn_text = ''Open (Terabox)'', btn_url = Some (build_redirect cfg l), btn_callback_data = None \<rparr>"

definition add_terabox_button ::
  "config \<Rightarrow> string \<Rightarrow> string set \<times> button list \<Rightarrow> string set \<times> button list" where
  "add_terabox_button cfg l st =
     (if l \<in> fst st then st else (insert l (fst st), snd st @ [terabox_button cfg l]))"

definition append_terabox_row :: "config \<Rightarrow> string list \<Rightarrow> markup option \<Rightarrow> markup option" where
  "append_terabox_row cfg terabox_links inline_kb =
     (if terabox_links = [] then inline_kb
      else (let tb_buttons = snd (fold (add_terabox_button cfg) terabox_links ({}, [])) in
            case inline_kb of
              Some rows \<Rightarrow> Some (rows @ [tb_buttons])
            | None \<Rightarrow> Some [tb_buttons]))"

text \<open>The keyboard and the caption the handler has computed when it starts to deliver.\<close>

definition post_markup :: "pylib \<Rightarrow> config \<Rightarrow> message \<Rightarrow> markup option" where
  "post_markup lib cfg msg =
     (let original_text = fst (post_text msg); entities = snd (post_text msg);
          terabox_links = extract_terabox_links_from_entities lib original_text entities;
          inline_kb = (case msg_reply_markup msg of
                         Some rows \<Rightarrow> convert_inline_markup lib cfg (Some rows)
                       | None \<Rightarrow> None)
      in append_terabox_row cfg terabox_links inline_kb)"

definition post_caption :: "pylib \<Rightarrow> config \<Rightarrow> message \<Rightarrow> string" where
  "post_caption lib cfg msg =
     (let original_text = fst (post_text msg); entities = snd (post_text msg);
          new_text = replace_entities_in_text lib cfg original_text entities
      in build_caption lib cfg new_text (py_str (msg_chat_id msg)) (msg_message_id msg))"

definition or_none :: "string \<Rightarrow> string option" where
  "or_none s = (if s = [] then None else Some s)"

text \<open>The calls the body of the \<open>try\<close> makes for one destination, in order.\<close>

definition calls_for :: "message \<Rightarrow> string \<Rightarrow> markup option \<Rightarrow> string \<Rightarrow> call list" where
  "calls_for msg caption_to_send inline_kb dest =
     (if msg_photo msg \<noteq> []
      then [SendPhoto dest (last (msg_photo msg)) (or_none caption_to_send) inline_kb]
      else case msg_document msg of
        Some f \<Rightarrow> [SendDocument dest f (or_none caption_to_send) inline_kb]
      | None \<Rightarrow> (case msg_video msg of
        Some f \<Rightarrow> [SendVideo dest f (or_none caption_to_send) inline_kb]
      | None \<Rightarrow> (case msg_audio msg of
        Some f \<Rightarrow> [SendAudio dest f (or_none caption_to_send) inline_kb]
      | None \<Rightarrow> (case msg_voice msg of
        Some f \<Rightarrow> [SendVoice dest f (or_none caption_to_send) inline_kb]
      | None \<Rightarrow> (case msg_sticker msg of
        Some f \<Rightarrow> SendSticker dest f #
                  (if caption_to_send \<noteq> [] then [SendMessage dest caption_to_send None] else [])
      | None \<Rightarrow>
          if caption_to_send \<noteq> [] then [SendMessage dest caption_to_send inline_kb]
          else [ForwardMessage dest (msg_chat_id msg) (msg_message_id msg)])))))"

text \<open>The body of the \<open>try\<close>: the calls are made in order, and the first that raises
  ends the body; the \<open>except\<close> clause logs and goes on with the next destination.\<close>

fun try_calls :: "'w bot_api \<Rightarrow> call list \<Rightarrow> 'w \<Rightarrow> 'w \<times> event list" where
  "try_calls api [] w = (w, [])"
| "try_calls api (c # cs) w =
     (let r = api c w in
      if fst r
      then (let rest = try_calls api cs (snd r) in (fst rest, Attempt c True # snd rest))
      else (snd r, [Attempt c False]))"

fun deliver_all :: "'w bot_api \<Rightarrow> (string \<Rightarrow> call list) \<Rightarrow> string list \<Rightarrow> 'w \<Rightarrow> 'w \<times> event list" where
  "deliver_all api calls [] w = (w, [])"
| "deliver_all api calls (dest # dests) w =
     (let one = try_calls api (calls dest) w;
          rest = deliver_all api calls dests (fst one)
      in (fst rest, snd one @ snd rest))"

text \<open>
  \<open>handle_channel_post\<close>: from an update (its channel post, if it has one), the dedupe
  store and the state of the delivery service, to the new store, the new state and the
  events in the order they happened.
\<close>

definition handle_channel_post ::
  "pylib \<Rightarrow> config \<Rightarrow> 'w bot_api \<Rightarrow> message option \<Rightarrow> store \<Rightarrow> 'w \<Rightarrow> store \<times> 'w \<times> event list" where
  "handle_channel_post lib cfg api channel_post db w =
     (case channel_post of
        None \<Rightarrow> (db, w, [])
      | Some msg \<Rightarrow>
          let src_chat_id = msg_chat_id msg; src_msg_id = msg_message_id msg in
          if SOURCE_CHANNEL_ID cfg \<noteq> [] \<and> py_str src_chat_id \<noteq> SOURCE_CHANNEL_ID cfg
          then (db, w, [])
          else if already_forwarded db src_chat_id src_msg_id
          then (db, w, [])
          else (let inline_kb = post_markup lib cfg msg;
                    caption_to_send = post_caption lib cfg msg;
                    sent = deliver_all api (calls_for msg caption_to_send inline_kb) (DEST_LIST cfg) w
                in (mark_forwarded db src_chat_id src_msg_id, fst sent,
                    snd sent @ [Commit (py_str src_chat_id) src_msg_id])))"

text \<open>
  The application takes updates from one queue and handles them one at a time, in the
  order of arrival: each run of the handler starts from the store and the state of the
  delivery service that the run before it left.
\<close>

fun handle_updates ::
  "pylib \<Rightarrow> config \<Rightarrow> 'w bot_api \<Rightarrow> message option list \<Rightarrow> store \<Rightarrow> 'w \<Rightarrow> store \<times> 'w \<times> event list" where
  "handle_updates lib cfg api [] db w = (db, w, [])"
| "handle_updates lib cfg api (u # us) db w =
     (let one = handle_channel_post lib cfg api u db w;
          rest = handle_updates lib cfg api us (fst one) (fst (snd one))
      in (fst rest, fst (snd rest), snd (snd one) @ snd (snd rest)))"

section \<open>Notions the properties are stated with\<close>

text \<open>The state of the rewrite loop after the entities \<open>ents\<close>, entered with no piece
  collected and \<open>last\<close> at \<open>start\<close>.\<close>

definition rewrite_walk :: "pylib \<Rightarrow> config \<Rightarrow> string \<Rightarrow> entity list \<Rightarrow> nat \<Rightarrow> string list \<times> nat" where
  "rewrite_walk lib cfg txt ents start = fold (rewrite_entity lib cfg txt) ents ([], start)"

text \<open>
  The candidate URL of a range: the text under a plain URL range, the target of a
  labelled URL range that has one (an absent or empty target gives no candidate), and
  nothing for any other range.
\<close>

definition candidate_url :: "string \<Rightarrow> entity \<Rightarrow> string option" where
  "candidate_url txt ent =
     (if ent_type ent = ''url'' then Some (slice txt (ent_offset ent) (ent_offset ent + ent_length ent))
      else if ent_type ent = ''text_link'' \<and> truthy (ent_url ent) then ent_url ent
      else None)"

definition candidate_urls :: "string \<Rightarrow> entity list \<Rightarrow> string list" where
  "candidate_urls txt ents = List.map_filter (candidate_url txt) ents"

text \<open>The distinct values of a list in the order in which each is first seen.\<close>

fun first_seen :: "'a list \<Rightarrow> 'a list" where
  "first_seen [] = []"
| "first_seen (x # xs) = x # removeAll x (first_seen xs)"

definition is_attempt :: "event \<Rightarrow> bool" where
  "is_attempt ev = (case ev of Attempt c ok \<Rightarrow> True | Commit k i \<Rightarrow> False)"

subsection \<open>Sample inputs\<close>

definition sample_config :: config where
  "sample_config =
     \<lparr> SOURCE_CHANNEL_ID = ''42'', DEST_LIST = [''@a'', ''@b''],
       REDIRECT_BASE = ''https://go.example.com//'',
       CAPTION_TEMPLATE = ''{original_text} {nope}'', FOOTER_TEXT = ''via X'' \<rparr>"

definition passthrough_config :: config where
  "passthrough_config = sample_config \<lparr> REDIRECT_BASE := [] \<rparr>"

definition empty_post :: message where
  "empty_post =
     \<lparr> msg_chat_id = 42, msg_message_id = 7, msg_text = None, msg_entities = [],
       msg_caption = None, msg_caption_entities = [], msg_reply_markup = None,
       msg_photo = [], msg_document = None, msg_video = None, msg_audio = None,
       msg_voice = None, msg_sticker = None \<rparr>"

definition plain_url_range :: entity where
  "plain_url_range = \<lparr> ent_offset = 4, ent_length = 21, ent_type = ''url'', ent_url = None \<rparr>"

definition labelled_range :: entity where
  "labelled_range =
     \<lparr> ent_offset = 6, ent_length = 4, ent_type = ''text_link'',
       ent_url = Some ''https://terabox.com/a'' \<rparr>"

definition bold_range :: entity where
  "bold_range = \<lparr> ent_offset = 0, ent_length = 5, ent_type = ''bold'', ent_url = None \<rparr>"

definition text_post :: message where
  "text_post =
     empty_post \<lparr> msg_text := Some ''see https://terabox.com/a'', msg_entities := [plain_url_range] \<rparr>"

definition sticker_post :: message where
  "sticker_post =
     empty_post \<lparr> msg_sticker := Some ''STICKER'',
                  msg_reply_markup := Some [[\<lparr> btn_text = ''more'', btn_url = None,
                                               btn_callback_data = Some ''go'' \<rparr>]] \<rparr>"

definition always_raises :: "unit bot_api" where
  "always_raises c w = (False, w)"

definition raises_for :: "string \<Rightarrow> unit bot_api" where
  "raises_for dest c w = (call_dest c \<noteq> dest, w)"

section \<open>Evaluation rules\<close>

lemmas string_rules =
  py_lower_def py_lower_char_def is_upper_def slice_def rstrip_slash_def py_str_def
  dec_digits.simps digit_char_def quote_plus_def quote_char_def percent_byte_def
  always_safe_def hex_digit_def TERABOX_RE_FRAGMENT_def newline_def backslash_def

lemmas library_rules =
  cpython_def urlsplit_netloc_def c0_control_or_space_def unsafe_url_byte_def
  strip_scheme_def ascii_alpha_def scheme_char_def netloc_delim_def
  format_kwargs_def get_field_def plain_name_char_def digit_def sum_prepend_def

lemmas relay_rules =
  is_terabox_url_def build_redirect_def truthy_def redirect_if_terabox_def
  rewrite_entity_def replace_entities_in_text_def extract_entity_def
  extract_terabox_links_from_entities_def or_else_def convert_button_def
  convert_inline_markup_def caption_fallback_separator_def build_caption_def
  post_text_def terabox_button_def add_terabox_button_def append_terabox_row_def
  post_markup_def post_caption_def or_none_def calls_for_def handle_channel_post_def
  already_forwarded_def mark_forwarded_def

lemmas sample_rules =
  sample_config_def passthrough_config_def empty_post_def plain_url_range_def
  labelled_range_def bold_range_def text_post_def sticker_post_def always_raises_def
  raises_for_def

section \<open>Strings\<close>

lemma starts_with_iff: "starts_with sub s \<longleftrightarrow> (\<exists>q. s = sub @ q)"
  by (induction sub s rule: starts_with.induct) auto

lemma py_in_iff: "py_in sub s \<longleftrightarrow> (\<exists>p q. s = p @ sub @ q)"
proof (induction s)
  case Nil
  then show ?case by auto
next
  case (Cons c cs)
  show ?case
  proof
    assume "py_in sub (c # cs)"
    then consider "starts_with sub (c # cs)" | "py_in sub cs" by auto
    then show "\<exists>p q. c # cs = p @ sub @ q"
    proof cases
      case 1
      then obtain q where "c # cs = sub @ q" using starts_with_iff by blast
      then have "c # cs = [] @ sub @ q" by simp
      then show ?thesis by blast
    next
      case 2
      then obtain p q where "cs = p @ sub @ q" using Cons.IH by blast
      then have "c # cs = (c # p) @ sub @ q" by simp
      then show ?thesis by blast
    qed
  next
    assume "\<exists>p q. c # cs = p @ sub @ q"
    then obtain p q where pq: "c # cs = p @ sub @ q" by blast
    show "py_in sub (c # cs)"
    proof (cases p)
      case Nil
      with pq have "starts_with sub (c # cs)" using starts_with_iff by auto
      then show ?thesis by simp
    next
      case (Cons a p')
      with pq have "cs = p' @ sub @ q" by simp
      then have "py_in sub cs" using Cons.IH by blast
      then show ?thesis by simp
    qed
  qed
qed

lemma rstrip_slash_append:
  "\<exists>n. s = rstrip_slash s @ replicate n (CHR ''/'')"
proof -
  let ?P = "\<lambda>c. c = CHR ''/''"
  have tw: "takeWhile ?P xs = replicate (length (takeWhile ?P xs)) (CHR ''/'')" for xs
    by (induction xs) auto
  have "rev s = takeWhile ?P (rev s) @ dropWhile ?P (rev s)" by simp
  then have "s = rev (dropWhile ?P (rev s)) @ rev (takeWhile ?P (rev s))"
    by (metis rev_append rev_rev_ident)
  also have "rev (takeWhile ?P (rev s)) = replicate (length (takeWhile ?P (rev s))) (CHR ''/'')"
    using tw[of "rev s"] by (metis rev_replicate)
  finally show ?thesis unfolding rstrip_slash_def by blast
qed

lemma rstrip_slash_last:
  "rstrip_slash s = [] \<or> last (rstrip_slash s) \<noteq> CHR ''/''"
proof (cases "dropWhile (\<lambda>c. c = CHR ''/'') (rev s)")
  case Nil
  then show ?thesis by (simp add: rstrip_slash_def)
next
  case (Cons a as)
  then have "a \<noteq> CHR ''/''" using hd_dropWhile[of "\<lambda>c. c = CHR ''/''" "rev s"] by auto
  then show ?thesis using Cons by (simp add: rstrip_slash_def)
qed

text \<open>
  Claim C7. With no redirect base configured, \<open>build_redirect\<close> returns the URL
  unchanged. With one configured, the result is the base without its trailing slashes
  (the base is that stem followed by slashes only, and the stem does not end in a slash),
  then \<open>/?u=\<close>, then the percent-encoded URL as \<open>quote_plus\<close> writes it.
\<close>

theorem build_redirect_result:
  "if REDIRECT_BASE cfg = [] then build_redirect cfg u = u
   else (\<exists>stem n. REDIRECT_BASE cfg = stem @ replicate n (CHR ''/'') \<and>
           (stem = [] \<or> last stem \<noteq> CHR ''/'') \<and>
           build_redirect cfg u = stem @ ''/?u='' @ quote_plus u)"
proof (cases "REDIRECT_BASE cfg = []")
  case True
  then show ?thesis by (simp add: build_redirect_def)
next
  case False
  obtain n where "REDIRECT_BASE cfg = rstrip_slash (REDIRECT_BASE cfg) @ replicate n (CHR ''/'')"
    using rstrip_slash_append by blast
  moreover have "rstrip_slash (REDIRECT_BASE cfg) = [] \<or> last (rstrip_slash (REDIRECT_BASE cfg)) \<noteq> CHR ''/''"
    by (rule rstrip_slash_last)
  moreover have "build_redirect cfg u = rstrip_slash (REDIRECT_BASE cfg) @ ''/?u='' @ quote_plus u"
    using False by (simp add: build_redirect_def)
  ultimately show ?thesis using False by auto
qed

theorem build_redirect_result_witness:
  "build_redirect passthrough_config ''https://terabox.com/a b'' = ''https://terabox.com/a b'' \<and>
   REDIRECT_BASE sample_config = ''https://go.example.com'' @ replicate 2 (CHR ''/'') \<and>
   build_redirect sample_config ''https://terabox.com/a b'' =
     ''https://go.example.com/?u=https%3A%2F%2Fterabox.com%2Fa+b''"
  using build_redirect_result [of passthrough_config "''https://terabox.com/a b''"]
    build_redirect_result [of sample_config "''https://terabox.com/a b''"]
  by (simp add: sample_rules build_redirect_def string_rules numeral_2_eq_2)

text \<open>
  Claim C6, amended. \<open>is_terabox_url\<close> is a total function to \<open>bool\<close>: it never
  raises. It is true exactly when \<open>urlparse\<close> returns and the marker occurs in the
  lower-cased netloc or in the lower-cased URL; when \<open>urlparse\<close> raises it is false,
  whatever the URL contains.
\<close>

theorem is_terabox_url_iff:
  "is_terabox_url lib url \<longleftrightarrow>
     (\<exists>netloc. urlparse_netloc lib url = Inr netloc \<and>
        (\<exists>p q. py_lower netloc = p @ TERABOX_RE_FRAGMENT @ q \<or>
               py_lower url = p @ TERABOX_RE_FRAGMENT @ q))"
  by (auto simp: is_terabox_url_def py_in_iff split: sum.splits)

theorem is_terabox_url_iff_witness:
  "is_terabox_url cpython ''https://TeraBox.com/a'' \<and>
   is_terabox_url cpython ''https://example.org/get?f=TERABOX'' \<and>
   \<not> is_terabox_url cpython ''https://example.org/a''"
  using is_terabox_url_iff [of cpython "''https://TeraBox.com/a''"]
  by (simp add: is_terabox_url_def library_rules string_rules)

text \<open>
  Claim C6 as stated fails: the URL \<open>http://[terabox.com/x\<close> contains the marker, its
  netloc has an opening bracket and no closing one, so \<open>urlparse\<close> raises
  \<open>ValueError\<close>, and the URL is classified as not tracked.
\<close>

theorem unparsable_url_is_not_tracked:
  "py_in TERABOX_RE_FRAGMENT (py_lower ''http://[terabox.com/x'') \<and>
   urlparse_netloc cpython ''http://[terabox.com/x'' = Inl ValueError \<and>
   \<not> is_terabox_url cpython ''http://[terabox.com/x''"
  by (simp add: is_terabox_url_def library_rules string_rules)


section \<open>Caption fallback\<close>

text \<open>
  What the code returns when the substitution into the caption template raises:
  \<open>build_caption\<close> does not raise, and its result is the original text, then the
  four characters backslash, \<open>n\<close>, backslash, \<open>n\<close>, then the footer.
\<close>

lemma build_caption_fallback:
  "str_format lib (CAPTION_TEMPLATE cfg)
     [(''original_text'', original_text), (''source_channel'', src_channel),
      (''source_msg_id'', py_str src_msg_id), (''footer'', FOOTER_TEXT cfg)] = Inl e \<Longrightarrow>
   build_caption lib cfg original_text src_channel src_msg_id =
     original_text @ [backslash, CHR ''n'', backslash, CHR ''n''] @ FOOTER_TEXT cfg"
  by (simp add: build_caption_def caption_fallback_separator_def)

lemma build_caption_fallback_sample:
  "str_format cpython (CAPTION_TEMPLATE sample_config)
     [(''original_text'', ''hi''), (''source_channel'', ''42''),
      (''source_msg_id'', py_str 7), (''footer'', FOOTER_TEXT sample_config)] = Inl KeyError \<and>
   build_caption cpython sample_config ''hi'' ''42'' 7 =
     ''hi'' @ [backslash, CHR ''n'', backslash, CHR ''n''] @ ''via X''"
proof -
  have h: "str_format cpython (CAPTION_TEMPLATE sample_config)
     [(''original_text'', ''hi''), (''source_channel'', ''42''),
      (''source_msg_id'', py_str 7), (''footer'', FOOTER_TEXT sample_config)] = Inl KeyError"
    by (simp add: sample_rules library_rules string_rules)
  show ?thesis
    using h build_caption_fallback [OF h] by (simp add: sample_rules)
qed

text \<open>
  Claim C4. When the substitution into the caption template raises, \<open>build_caption\<close>
  is to return the original text, two newline characters and the footer. The code
  departs from this. With the template \<open>{original_text} {nope}\<close> the substitution
  raises \<open>KeyError\<close>; the caption returned for the text \<open>hi\<close> and the footer
  \<open>via X\<close> is not \<open>hi\<close>, two newlines, \<open>via X\<close>: it is two characters longer,
  holds no newline, and has the four characters backslash, \<open>n\<close>, backslash, \<open>n\<close>
  between text and footer. In the source's literal for the separator each backslash is
  doubled.
\<close>

theorem build_caption_fallback_has_no_newline:
  "str_format cpython (CAPTION_TEMPLATE sample_config)
     [(''original_text'', ''hi''), (''source_channel'', ''42''),
      (''source_msg_id'', py_str 7), (''footer'', FOOTER_TEXT sample_config)] = Inl KeyError \<and>
   build_caption cpython sample_config ''hi'' ''42'' 7 \<noteq> ''hi'' @ [newline, newline] @ ''via X'' \<and>
   length (build_caption cpython sample_config ''hi'' ''42'' 7) = length (''hi'' @ [newline, newline] @ ''via X'') + 2 \<and>
   newline \<notin> set (build_caption cpython sample_config ''hi'' ''42'' 7) \<and>
   build_caption cpython sample_config ''hi'' ''42'' 7 =
     ''hi'' @ [backslash, CHR ''n'', backslash, CHR ''n''] @ ''via X''"
  by (simp add: relay_rules sample_rules library_rules string_rules)

section \<open>Link extraction\<close>

lemma extract_entity_step:
  "extract_entity lib txt ent links =
     links @ filter (is_terabox_url lib) (case candidate_url txt ent of None \<Rightarrow> [] | Some u \<Rightarrow> [u])"
  by (cases "ent_url ent") (simp_all add: extract_entity_def candidate_url_def Let_def truthy_def)

lemma fold_extract_entity:
  "fold (extract_entity lib txt) ents links =
     links @ filter (is_terabox_url lib) (candidate_urls txt ents)"
proof (induction ents arbitrary: links)
  case Nil
  then show ?case by (simp add: candidate_urls_def map_filter_simps)
next
  case (Cons ent ents)
  have "fold (extract_entity lib txt) (ent # ents) links =
        fold (extract_entity lib txt) ents (extract_entity lib txt ent links)"
    by simp
  also have "\<dots> = extract_entity lib txt ent links @
                   filter (is_terabox_url lib) (candidate_urls txt ents)"
    by (rule Cons.IH)
  also have "\<dots> = links @ filter (is_terabox_url lib) (candidate_urls txt (ent # ents))"
    by (cases "candidate_url txt ent")
       (simp_all add: extract_entity_step candidate_urls_def map_filter_simps)
  finally show ?case .
qed

text \<open>
  Claim C8. \<open>extract_terabox_links_from_entities\<close> returns the candidate URLs of the
  ranges, in the order of the ranges as given, keeping exactly those that
  \<open>is_terabox_url\<close> accepts and keeping repetitions. The function takes no
  configuration: its result is the same whatever the redirect base.
\<close>

theorem extract_terabox_links_result:
  "extract_terabox_links_from_entities lib txt entities =
     filter (is_terabox_url lib)
       (candidate_urls txt (case entities of None \<Rightarrow> [] | Some ents \<Rightarrow> ents))"
  by (cases entities)
     (simp_all add: extract_terabox_links_from_entities_def fold_extract_entity candidate_urls_def map_filter_simps)

theorem extract_terabox_links_result_witness:
  "extract_terabox_links_from_entities cpython ''click here https://terabox.com/a''
     (Some [\<lparr> ent_offset = 11, ent_length = 21, ent_type = ''url'', ent_url = None \<rparr>,
            bold_range, labelled_range,
            \<lparr> ent_offset = 0, ent_length = 5, ent_type = ''text_link'', ent_url = Some ''https://example.org/'' \<rparr>,
            labelled_range]) =
   [''https://terabox.com/a'', ''https://terabox.com/a'', ''https://terabox.com/a'']"
  using extract_terabox_links_result [of cpython "''click here https://terabox.com/a''"
     "Some [\<lparr> ent_offset = 11, ent_length = 21, ent_type = ''url'', ent_url = None \<rparr>,
            bold_range, labelled_range,
            \<lparr> ent_offset = 0, ent_length = 5, ent_type = ''text_link'', ent_url = Some ''https://example.org/'' \<rparr>,
            labelled_range]"]
  by (simp add: candidate_urls_def candidate_url_def map_filter_simps sample_rules relay_rules library_rules string_rules)


section \<open>Keyboard conversion\<close>

text \<open>
  Claim C5. For a keyboard that is not \<open>None\<close>, \<open>convert_inline_markup\<close> returns a
  keyboard with as many rows, and in each row as many buttons in the same order. A
  button with a URL becomes a button with the same label (\<open>link\<close> when the label is
  empty) whose URL is the redirect when the URL is tracked and the URL itself otherwise.
  A button without a URL that carries callback data keeps that data unchanged, with its
  label (\<open>btn\<close> when the label is empty).
\<close>

theorem convert_inline_markup_result:
  "\<exists>rows'. convert_inline_markup lib cfg (Some rows) = Some rows' \<and>
     length rows' = length rows \<and>
     (\<forall>i < length rows. length (rows' ! i) = length (rows ! i) \<and>
        (\<forall>j < length (rows ! i).
           (\<forall>u. btn_url (rows ! i ! j) = Some u \<and> u \<noteq> [] \<longrightarrow>
              rows' ! i ! j =
                \<lparr> btn_text = (if btn_text (rows ! i ! j) = [] then ''link'' else btn_text (rows ! i ! j)),
                  btn_url = Some (if is_terabox_url lib u then build_redirect cfg u else u),
                  btn_callback_data = None \<rparr>) \<and>
           (\<forall>a. \<not> truthy (btn_url (rows ! i ! j)) \<and> btn_callback_data (rows ! i ! j) = Some a \<and> a \<noteq> [] \<longrightarrow>
              rows' ! i ! j =
                \<lparr> btn_text = (if btn_text (rows ! i ! j) = [] then ''btn'' else btn_text (rows ! i ! j)),
                  btn_url = None,
                  btn_callback_data = Some a \<rparr>)))"
  by (simp add: convert_inline_markup_def convert_button_def truthy_def or_else_def redirect_if_terabox_def)

theorem convert_inline_markup_result_witness:
  "convert_inline_markup cpython sample_config
     (Some [[\<lparr> btn_text = ''get'', btn_url = Some ''https://terabox.com/a'', btn_callback_data = None \<rparr>,
             \<lparr> btn_text = [], btn_url = Some ''https://example.org/'', btn_callback_data = None \<rparr>],
            [\<lparr> btn_text = [], btn_url = None, btn_callback_data = Some ''go'' \<rparr>]]) =
   Some [[\<lparr> btn_text = ''get'', btn_url = Some ''https://go.example.com/?u=https%3A%2F%2Fterabox.com%2Fa'', btn_callback_data = None \<rparr>,
          \<lparr> btn_text = ''link'', btn_url = Some ''https://example.org/'', btn_callback_data = None \<rparr>],
         [\<lparr> btn_text = ''btn'', btn_url = None, btn_callback_data = Some ''go'' \<rparr>]]"
  using convert_inline_markup_result [of cpython sample_config
     "[[\<lparr> btn_text = ''get'', btn_url = Some ''https://terabox.com/a'', btn_callback_data = None \<rparr>,
             \<lparr> btn_text = [], btn_url = Some ''https://example.org/'', btn_callback_data = None \<rparr>],
            [\<lparr> btn_text = [], btn_url = None, btn_callback_data = Some ''go'' \<rparr>]]"]
  by (simp add: sample_rules relay_rules library_rules string_rules)

section \<open>Delivery\<close>

lemma try_calls_events:
  "ev \<in> set (snd (try_calls api cs w)) \<Longrightarrow> \<exists>c ok. ev = Attempt c ok \<and> c \<in> set cs"
proof (induction cs arbitrary: w)
  case Nil
  then show ?case by simp
next
  case (Cons a cs)
  show ?case
  proof (cases "fst (api a w)")
    case True
    with Cons.prems have "ev = Attempt a True \<or> ev \<in> set (snd (try_calls api cs (snd (api a w))))"
      by (simp add: Let_def)
    then show ?thesis
    proof
      assume "ev = Attempt a True"
      then show ?thesis by auto
    next
      assume "ev \<in> set (snd (try_calls api cs (snd (api a w))))"
      then obtain c ok where "ev = Attempt c ok" "c \<in> set cs" using Cons.IH by blast
      then show ?thesis by auto
    qed
  next
    case False
    with Cons.prems have "ev = Attempt a False" by (simp add: Let_def)
    then show ?thesis by auto
  qed
qed

lemma deliver_all_events:
  "ev \<in> set (snd (deliver_all api calls dests w)) \<Longrightarrow>
   \<exists>c ok d. ev = Attempt c ok \<and> d \<in> set dests \<and> c \<in> set (calls d)"
proof (induction dests arbitrary: w)
  case Nil
  then show ?case by simp
next
  case (Cons dest dests)
  then consider "ev \<in> set (snd (try_calls api (calls dest) w))"
    | "ev \<in> set (snd (deliver_all api calls dests (fst (try_calls api (calls dest) w))))"
    by (auto simp: Let_def)
  then show ?case
  proof cases
    case 1
    then show ?thesis using try_calls_events by fastforce
  next
    case 2
    then show ?thesis using Cons.IH by fastforce
  qed
qed

lemma handle_channel_post_attempts:
  assumes "Attempt c ok \<in> set (snd (snd (handle_channel_post lib cfg api (Some msg) db w)))"
  shows "\<exists>d \<in> set (DEST_LIST cfg). c \<in> set (calls_for msg (post_caption lib cfg msg) (post_markup lib cfg msg) d)"
proof -
  from assms have "Attempt c ok \<in> set (snd (deliver_all api
      (calls_for msg (post_caption lib cfg msg) (post_markup lib cfg msg)) (DEST_LIST cfg) w))"
    by (auto simp: handle_channel_post_def Let_def split: if_splits)
  then show ?thesis using deliver_all_events by fastforce
qed

text \<open>
  Claim C10. For a post whose media is a sticker, every call the handler makes is the
  sticker send or the follow-up message with the caption, and neither carries a reply
  markup, whatever keyboard the handler has computed for the post.
\<close>

theorem sticker_calls_carry_no_markup:
  assumes "msg_photo msg = []" and "msg_document msg = None" and "msg_video msg = None"
    and "msg_audio msg = None" and "msg_voice msg = None" and "msg_sticker msg = Some f"
    and "Attempt c ok \<in> set (snd (snd (handle_channel_post lib cfg api (Some msg) db w)))"
  shows "call_markup c = None \<and>
         (\<exists>d \<in> set (DEST_LIST cfg). c = SendSticker d f \<or> c = SendMessage d (post_caption lib cfg msg) None)"
proof -
  obtain d where d: "d \<in> set (DEST_LIST cfg)"
    and c: "c \<in> set (calls_for msg (post_caption lib cfg msg) (post_markup lib cfg msg) d)"
    using handle_channel_post_attempts [OF assms(7)] by blast
  from c assms(1-6) have "c = SendSticker d f \<or> c = SendMessage d (post_caption lib cfg msg) None"
    by (auto simp: calls_for_def split: if_splits)
  then show ?thesis using d by auto
qed


theorem sticker_calls_carry_no_markup_witness:
  "msg_sticker sticker_post = Some ''STICKER'' \<and>
   post_markup cpython sample_config sticker_post =
     Some [[\<lparr> btn_text = ''more'', btn_url = None, btn_callback_data = Some ''go'' \<rparr>]] \<and>
   snd (snd (handle_channel_post cpython sample_config (raises_for ''@a'') (Some sticker_post) {} ())) =
     [Attempt (SendSticker ''@a'' ''STICKER'') False,
      Attempt (SendSticker ''@b'' ''STICKER'') True,
      Attempt (SendMessage ''@b'' (post_caption cpython sample_config sticker_post) None) True,
      Commit ''42'' 7] \<and>
   call_markup (SendMessage ''@b'' (post_caption cpython sample_config sticker_post) None) = None"
proof -
  have evs: "snd (snd (handle_channel_post cpython sample_config (raises_for ''@a'') (Some sticker_post) {} ())) =
     [Attempt (SendSticker ''@a'' ''STICKER'') False,
      Attempt (SendSticker ''@b'' ''STICKER'') True,
      Attempt (SendMessage ''@b'' (post_caption cpython sample_config sticker_post) None) True,
      Commit ''42'' 7]"
    by (simp add: sample_rules relay_rules library_rules string_rules)
  have kb: "post_markup cpython sample_config sticker_post =
     Some [[\<lparr> btn_text = ''more'', btn_url = None, btn_callback_data = Some ''go'' \<rparr>]]"
    by (simp add: sample_rules relay_rules library_rules string_rules)
  have mem: "Attempt (SendMessage ''@b'' (post_caption cpython sample_config sticker_post) None) True
      \<in> set (snd (snd (handle_channel_post cpython sample_config (raises_for ''@a'') (Some sticker_post) {} ())))"
    by (simp only: evs) simp
  have "call_markup (SendMessage ''@b'' (post_caption cpython sample_config sticker_post) None) = None"
    using sticker_calls_carry_no_markup [of sticker_post "''STICKER''" _ True cpython sample_config "raises_for ''@a''" "{}" "()", OF _ _ _ _ _ _ mem]
    by (simp add: sample_rules)
  then show ?thesis using evs kb by (simp add: sample_rules)
qed


section \<open>Entity rewrite\<close>

lemma rewrite_entity_pieces:
  "rewrite_entity lib cfg txt ent (ps, l) =
     (ps @ fst (rewrite_entity lib cfg txt ent ([], l)), snd (rewrite_entity lib cfg txt ent ([], l)))"
  by (simp add: rewrite_entity_def Let_def)

lemma fold_rewrite_entity:
  "fold (rewrite_entity lib cfg txt) ents (ps, l) =
     (ps @ fst (rewrite_walk lib cfg txt ents l), snd (rewrite_walk lib cfg txt ents l))"
proof (induction ents arbitrary: ps l)
  case Nil
  then show ?case by (simp add: rewrite_walk_def)
next
  case (Cons ent ents)
  obtain qs m where one: "rewrite_entity lib cfg txt ent ([], l) = (qs, m)"
    by (cases "rewrite_entity lib cfg txt ent ([], l)")
  have step: "rewrite_entity lib cfg txt ent (ps, l) = (ps @ qs, m)"
    using rewrite_entity_pieces [of lib cfg "txt" ent ps l] one by simp
  have "fold (rewrite_entity lib cfg txt) (ent # ents) (ps, l) =
        fold (rewrite_entity lib cfg txt) ents (ps @ qs, m)"
    using step by simp
  also have "\<dots> = ((ps @ qs) @ fst (rewrite_walk lib cfg txt ents m), snd (rewrite_walk lib cfg txt ents m))"
    by (rule Cons.IH)
  finally have left: "fold (rewrite_entity lib cfg txt) (ent # ents) (ps, l) =
      (ps @ qs @ fst (rewrite_walk lib cfg txt ents m), snd (rewrite_walk lib cfg txt ents m))"
    by simp
  have "rewrite_walk lib cfg txt (ent # ents) l = fold (rewrite_entity lib cfg txt) ents (qs, m)"
    using one by (simp add: rewrite_walk_def)
  also have "\<dots> = (qs @ fst (rewrite_walk lib cfg txt ents m), snd (rewrite_walk lib cfg txt ents m))"
    by (rule Cons.IH)
  finally have right: "rewrite_walk lib cfg txt (ent # ents) l =
      (qs @ fst (rewrite_walk lib cfg txt ents m), snd (rewrite_walk lib cfg txt ents m))" .
  show ?case using left right by simp
qed

lemma rewrite_entity_labelled:
  assumes "ent_type ent = ''text_link''"
  shows "rewrite_entity lib cfg txt ent (ps, l) =
     (ps @ [slice txt l (ent_offset ent),
            case ent_url ent of
              None \<Rightarrow> slice txt (ent_offset ent) (ent_offset ent + ent_length ent)
            | Some u \<Rightarrow>
                if u = [] then slice txt (ent_offset ent) (ent_offset ent + ent_length ent)
                else if is_terabox_url lib u then build_redirect cfg u else u],
      ent_offset ent + ent_length ent)"
  using assms
  by (cases "ent_url ent") (simp_all add: rewrite_entity_def Let_def truthy_def redirect_if_terabox_def)

text \<open>
  Claim C3, amended. Take a labelled URL range at any place in the ranges sorted by
  offset. When the range has a target that is not empty, \<open>replace_entities_in_text\<close>
  classifies the target, not the text under the range, and writes into the output, in
  place of the text under the range, the redirect of the target when the target is
  tracked and the target itself otherwise. When the range has no target, or an empty
  one, the text under the range is kept. Before the piece of the range stand the pieces
  of the ranges sorted before it and the text from their end to the range's offset;
  after it the rewrite goes on from the end of the range.
\<close>

theorem labelled_range_is_replaced_by_target:
  assumes "sort_key ent_offset ents = before @ ent # after"
    and "ent_type ent = ''text_link''"
  shows "replace_entities_in_text lib cfg txt (Some ents) =
     concat (fst (rewrite_walk lib cfg txt before 0)) @
     slice txt (snd (rewrite_walk lib cfg txt before 0)) (ent_offset ent) @
     (case ent_url ent of
        None \<Rightarrow> slice txt (ent_offset ent) (ent_offset ent + ent_length ent)
      | Some u \<Rightarrow>
          if u = [] then slice txt (ent_offset ent) (ent_offset ent + ent_length ent)
          else if is_terabox_url lib u then build_redirect cfg u else u) @
     concat (fst (rewrite_walk lib cfg txt after (ent_offset ent + ent_length ent))) @
     drop (snd (rewrite_walk lib cfg txt after (ent_offset ent + ent_length ent))) txt"
proof -
  let ?f = "rewrite_entity lib cfg txt"
  let ?b = "rewrite_walk lib cfg txt before 0"
  let ?e = "ent_offset ent + ent_length ent"
  let ?a = "rewrite_walk lib cfg txt after ?e"
  let ?r = "case ent_url ent of
        None \<Rightarrow> slice txt (ent_offset ent) (ent_offset ent + ent_length ent)
      | Some u \<Rightarrow>
          if u = [] then slice txt (ent_offset ent) (ent_offset ent + ent_length ent)
          else if is_terabox_url lib u then build_redirect cfg u else u"
  have ne: "ents \<noteq> []" using assms(1) by auto
  have "fold ?f (sort_key ent_offset ents) ([], 0) = fold ?f after (?f ent (fold ?f before ([], 0)))"
    by (simp add: assms(1))
  also have "fold ?f before ([], 0) = (fst ?b, snd ?b)"
    by (simp add: rewrite_walk_def)
  also have "?f ent (fst ?b, snd ?b) = (fst ?b @ [slice txt (snd ?b) (ent_offset ent), ?r], ?e)"
    by (rule rewrite_entity_labelled [OF assms(2)])
  also have "fold ?f after (fst ?b @ [slice txt (snd ?b) (ent_offset ent), ?r], ?e) =
      ((fst ?b @ [slice txt (snd ?b) (ent_offset ent), ?r]) @ fst ?a, snd ?a)"
    by (rule fold_rewrite_entity)
  finally have "fold ?f (sort_key ent_offset ents) ([], 0) =
      ((fst ?b @ [slice txt (snd ?b) (ent_offset ent), ?r]) @ fst ?a, snd ?a)" .
  then show ?thesis using ne by (simp add: replace_entities_in_text_def)
qed

theorem labelled_range_is_replaced_by_target_witness:
  "sort_key ent_offset [labelled_range, bold_range] = [bold_range] @ labelled_range # [] \<and>
   ent_type labelled_range = ''text_link'' \<and>
   replace_entities_in_text cpython sample_config ''click here'' (Some [labelled_range, bold_range]) =
     ''click https://go.example.com/?u=https%3A%2F%2Fterabox.com%2Fa'' \<and>
   replace_entities_in_text cpython sample_config ''click here''
     (Some [labelled_range \<lparr> ent_url := None \<rparr>, bold_range]) = ''click here''"
proof -
  have s: "sort_key ent_offset [labelled_range, bold_range] = [bold_range] @ labelled_range # []"
    by (simp add: sample_rules)
  have t: "ent_type labelled_range = ''text_link''" by (simp add: sample_rules)
  have s': "sort_key ent_offset [labelled_range \<lparr> ent_url := None \<rparr>, bold_range] =
      [bold_range] @ labelled_range \<lparr> ent_url := None \<rparr> # []"
    by (simp add: sample_rules)
  have t': "ent_type (labelled_range \<lparr> ent_url := None \<rparr>) = ''text_link''"
    by (simp add: sample_rules)
  show ?thesis
    using s t
      labelled_range_is_replaced_by_target [OF s t, of cpython sample_config "''click here''"]
      labelled_range_is_replaced_by_target [OF s' t', of cpython sample_config "''click here''"]
    by (simp add: rewrite_walk_def sample_rules relay_rules library_rules string_rules)
qed

text \<open>
  Claim C3 as stated fails: in \<open>click here\<close> with a labelled URL range over
  \<open>here\<close>, the rewritten text does not keep \<open>here\<close>. The target stands in its place
  when no redirect base is configured, and the redirect of the target when one is.
\<close>

theorem labelled_range_text_is_not_kept:
  "slice ''click here'' (ent_offset labelled_range) (ent_offset labelled_range + ent_length labelled_range) = ''here'' \<and>
   replace_entities_in_text cpython passthrough_config ''click here'' (Some [labelled_range]) =
     ''click https://terabox.com/a'' \<and>
   \<not> py_in ''here'' (replace_entities_in_text cpython passthrough_config ''click here'' (Some [labelled_range])) \<and>
   replace_entities_in_text cpython sample_config ''click here'' (Some [labelled_range]) =
     ''click https://go.example.com/?u=https%3A%2F%2Fterabox.com%2Fa''"
  by (simp add: sample_rules relay_rules library_rules string_rules)


section \<open>The row of tracked links\<close>

lemma distinct_first_seen: "distinct (first_seen xs)"
  by (induction xs) (auto simp: distinct_removeAll)

lemma set_first_seen: "set (first_seen xs) = set xs"
  by (induction xs) auto

lemma filter_removeAll_seen:
  "l \<in> seen \<Longrightarrow> filter (\<lambda>x. x \<notin> seen) (removeAll l ys) = filter (\<lambda>x. x \<notin> seen) ys"
  by (induction ys) auto

lemma filter_insert_seen:
  "filter (\<lambda>x. x \<notin> insert l seen) ys = filter (\<lambda>x. x \<notin> seen) (removeAll l ys)"
  by (induction ys) auto

lemma add_terabox_button_step:
  "add_terabox_button cfg l (seen, bs) =
     (if l \<in> seen then (seen, bs) else (insert l seen, bs @ [terabox_button cfg l]))"
  by (simp add: add_terabox_button_def)

lemma fold_add_terabox_button:
  "snd (fold (add_terabox_button cfg) links (seen, bs)) =
     bs @ map (terabox_button cfg) (filter (\<lambda>l. l \<notin> seen) (first_seen links))"
proof (induction links arbitrary: seen bs)
  case Nil
  then show ?case by simp
next
  case (Cons l links)
  show ?case
  proof (cases "l \<in> seen")
    case True
    have "filter (\<lambda>x. x \<notin> seen) (removeAll l (first_seen links)) =
          filter (\<lambda>x. x \<notin> seen) (first_seen links)"
      using True by (rule filter_removeAll_seen)
    then show ?thesis using True Cons.IH [of seen bs] by (simp add: add_terabox_button_step)
  next
    case False
    have "filter (\<lambda>x. x \<notin> insert l seen) (first_seen links) =
          filter (\<lambda>x. x \<notin> seen) (removeAll l (first_seen links))"
      by (rule filter_insert_seen)
    then show ?thesis
      using False Cons.IH [of "insert l seen" "bs @ [terabox_button cfg l]"]
      by (simp add: add_terabox_button_step)
  qed
qed

text \<open>
  Claim C9. The keyboard the handler has computed when it starts to deliver is the
  converted keyboard of the post when no tracked link was extracted. Otherwise it is the
  rows of the converted keyboard (none when the post had no keyboard) followed by exactly
  one row, which holds one button labelled \<open>Open (Terabox)\<close> for each distinct
  extracted link, in the order in which the links are first seen, with the redirect of
  the link as its URL.
\<close>

theorem terabox_row_appended:
  "post_markup lib cfg msg =
     (let links = extract_terabox_links_from_entities lib (fst (post_text msg)) (snd (post_text msg));
          converted = convert_inline_markup lib cfg (msg_reply_markup msg)
      in if links = [] then converted
         else Some ((case converted of None \<Rightarrow> [] | Some rows \<Rightarrow> rows) @
                    [map (\<lambda>l. \<lparr> btn_text = ''Open (Terabox)'', btn_url = Some (build_redirect cfg l),
                                  btn_callback_data = None \<rparr>) (first_seen links)])) \<and>
   distinct (first_seen (extract_terabox_links_from_entities lib (fst (post_text msg)) (snd (post_text msg)))) \<and>
   set (first_seen (extract_terabox_links_from_entities lib (fst (post_text msg)) (snd (post_text msg)))) =
     set (extract_terabox_links_from_entities lib (fst (post_text msg)) (snd (post_text msg)))"
proof -
  let ?links = "extract_terabox_links_from_entities lib (fst (post_text msg)) (snd (post_text msg))"
  have row: "snd (fold (add_terabox_button cfg) ?links ({}, [])) =
      map (terabox_button cfg) (first_seen ?links)"
    using fold_add_terabox_button [of cfg ?links "{}" "[]"] by simp
  have tb: "terabox_button cfg = (\<lambda>l. \<lparr> btn_text = ''Open (Terabox)'',
      btn_url = Some (build_redirect cfg l), btn_callback_data = None \<rparr>)"
    by (rule ext) (simp add: terabox_button_def)
  have conv: "(case msg_reply_markup msg of Some rows \<Rightarrow> convert_inline_markup lib cfg (Some rows)
       | None \<Rightarrow> None) = convert_inline_markup lib cfg (msg_reply_markup msg)"
    by (cases "msg_reply_markup msg") (simp_all add: convert_inline_markup_def)
  have "post_markup lib cfg msg =
      append_terabox_row cfg ?links (convert_inline_markup lib cfg (msg_reply_markup msg))"
    by (simp add: post_markup_def Let_def conv)
  also have "\<dots> = (if ?links = [] then convert_inline_markup lib cfg (msg_reply_markup msg)
      else Some ((case convert_inline_markup lib cfg (msg_reply_markup msg) of None \<Rightarrow> [] | Some rows \<Rightarrow> rows) @
                 [map (terabox_button cfg) (first_seen ?links)]))"
    by (cases "convert_inline_markup lib cfg (msg_reply_markup msg)")
       (simp_all add: append_terabox_row_def Let_def row)
  finally show ?thesis
    by (simp add: Let_def tb distinct_first_seen set_first_seen)
qed

theorem terabox_row_appended_witness:
  "post_markup cpython sample_config
     (text_post \<lparr> msg_entities := [plain_url_range, plain_url_range],
                  msg_reply_markup := Some [[\<lparr> btn_text = ''more'', btn_url = None,
                                               btn_callback_data = Some ''go'' \<rparr>]] \<rparr>) =
   Some [[\<lparr> btn_text = ''more'', btn_url = None, btn_callback_data = Some ''go'' \<rparr>],
         [\<lparr> btn_text = ''Open (Terabox)'',
            btn_url = Some ''https://go.example.com/?u=https%3A%2F%2Fterabox.com%2Fa'',
            btn_callback_data = None \<rparr>]]"
proof -
  let ?msg = "text_post \<lparr> msg_entities := [plain_url_range, plain_url_range],
                  msg_reply_markup := Some [[\<lparr> btn_text = ''more'', btn_url = None,
                                               btn_callback_data = Some ''go'' \<rparr>]] \<rparr>"
  have pt: "post_text ?msg = (''see https://terabox.com/a'', Some [plain_url_range, plain_url_range])"
    by (simp add: post_text_def truthy_def sample_rules)
  have tracked: "is_terabox_url cpython ''https://terabox.com/a''"
    by (simp add: is_terabox_url_def library_rules string_rules)
  have links: "extract_terabox_links_from_entities cpython ''see https://terabox.com/a''
      (Some [plain_url_range, plain_url_range]) = [''https://terabox.com/a'', ''https://terabox.com/a'']"
    by (simp add: extract_terabox_links_from_entities_def extract_entity_def slice_def tracked
        plain_url_range_def Let_def)
  have red: "build_redirect sample_config ''https://terabox.com/a'' =
      ''https://go.example.com/?u=https%3A%2F%2Fterabox.com%2Fa''"
    by (simp add: build_redirect_def sample_config_def string_rules)
  have conv: "convert_inline_markup cpython sample_config (msg_reply_markup ?msg) =
      Some [[\<lparr> btn_text = ''more'', btn_url = None, btn_callback_data = Some ''go'' \<rparr>]]"
    by (simp add: convert_inline_markup_def convert_button_def truthy_def or_else_def sample_rules)
  show ?thesis
    using terabox_row_appended [of cpython sample_config ?msg, THEN conjunct1]
    by (simp only: pt fst_conv snd_conv links conv Let_def) (simp add: red)
qed

section \<open>The dedupe commit\<close>

lemma try_calls_first:
  "cs \<noteq> [] \<Longrightarrow> \<exists>ok. Attempt (hd cs) ok \<in> set (snd (try_calls api cs w))"
  by (cases cs) (auto simp: Let_def)

lemma deliver_all_reaches:
  assumes "\<And>d. calls d \<noteq> [] \<and> call_dest (hd (calls d)) = d"
  shows "d \<in> set dests \<Longrightarrow>
         \<exists>c ok. Attempt c ok \<in> set (snd (deliver_all api calls dests w)) \<and> call_dest c = d"
proof (induction dests arbitrary: w)
  case Nil
  then show ?case by simp
next
  case (Cons dest dests)
  show ?case
  proof (cases "d = dest")
    case True
    have "calls dest \<noteq> []" using assms by simp
    then obtain ok where "Attempt (hd (calls dest)) ok \<in> set (snd (try_calls api (calls dest) w))"
      using try_calls_first [of "calls dest" api w] by auto
    then have "Attempt (hd (calls dest)) ok \<in> set (snd (deliver_all api calls (dest # dests) w))"
      by (simp add: Let_def)
    moreover have "call_dest (hd (calls dest)) = d" using True assms by simp
    ultimately show ?thesis by blast
  next
    case False
    with Cons.prems have "d \<in> set dests" by simp
    then obtain c ok where
      "Attempt c ok \<in> set (snd (deliver_all api calls dests (fst (try_calls api (calls dest) w))))"
      "call_dest c = d"
      using Cons.IH by blast
    then have "Attempt c ok \<in> set (snd (deliver_all api calls (dest # dests) w))"
      by (simp add: Let_def)
    then show ?thesis using \<open>call_dest c = d\<close> by blast
  qed
qed

lemma calls_for_first:
  "calls_for msg caption kb d \<noteq> [] \<and> call_dest (hd (calls_for msg caption kb d)) = d"
  by (simp add: calls_for_def split: option.splits)

lemma deliver_all_attempts:
  "ev \<in> set (snd (deliver_all api calls dests w)) \<Longrightarrow> is_attempt ev"
  using deliver_all_events [of ev api calls dests w] by (auto simp: is_attempt_def)



lemma handle_channel_post_fresh:
  assumes "SOURCE_CHANNEL_ID cfg = [] \<or> py_str (msg_chat_id msg) = SOURCE_CHANNEL_ID cfg"
    and "\<not> already_forwarded db (msg_chat_id msg) (msg_message_id msg)"
  shows "handle_channel_post lib cfg api (Some msg) db w =
      (insert (py_str (msg_chat_id msg), msg_message_id msg) db,
       fst (deliver_all api (calls_for msg (post_caption lib cfg msg) (post_markup lib cfg msg)) (DEST_LIST cfg) w),
       snd (deliver_all api (calls_for msg (post_caption lib cfg msg) (post_markup lib cfg msg)) (DEST_LIST cfg) w) @
         [Commit (py_str (msg_chat_id msg)) (msg_message_id msg)])"
proof -
  have pass: "\<not> (SOURCE_CHANNEL_ID cfg \<noteq> [] \<and> py_str (msg_chat_id msg) \<noteq> SOURCE_CHANNEL_ID cfg)"
    using assms(1) by blast
  show ?thesis
    unfolding handle_channel_post_def Let_def mark_forwarded_def
    by (simp only: option.case if_not_P [OF pass] if_not_P [OF assms(2)])
qed


text \<open>
  Claim C2. A post that passes the source filter and is not yet in the dedupe store is
  committed to the store exactly once: the events of the handler are delivery attempts
  only, followed by the one commit of the post's key, and the store is the old store with
  that key. Every configured destination has an attempted call among the attempts,
  whatever the outcome of the calls to it and to the other destinations, so also when
  every call raises.
\<close>

theorem record_committed_once_after_all_attempts:
  assumes "SOURCE_CHANNEL_ID cfg = [] \<or> py_str (msg_chat_id msg) = SOURCE_CHANNEL_ID cfg"
    and "\<not> already_forwarded db (msg_chat_id msg) (msg_message_id msg)"
  shows "\<exists>w' attempts.
           handle_channel_post lib cfg api (Some msg) db w =
             (insert (py_str (msg_chat_id msg), msg_message_id msg) db, w',
              attempts @ [Commit (py_str (msg_chat_id msg)) (msg_message_id msg)]) \<and>
           (\<forall>ev \<in> set attempts. is_attempt ev) \<and>
           (\<forall>d \<in> set (DEST_LIST cfg). \<exists>c ok. Attempt c ok \<in> set attempts \<and> call_dest c = d)"
proof (intro exI conjI)
  let ?calls = "calls_for msg (post_caption lib cfg msg) (post_markup lib cfg msg)"
  let ?sent = "deliver_all api ?calls (DEST_LIST cfg) w"
  show "handle_channel_post lib cfg api (Some msg) db w =
      (insert (py_str (msg_chat_id msg), msg_message_id msg) db, fst ?sent,
       snd ?sent @ [Commit (py_str (msg_chat_id msg)) (msg_message_id msg)])"
    by (rule handle_channel_post_fresh [OF assms])
  show "\<forall>ev \<in> set (snd ?sent). is_attempt ev"
    by (rule ballI) (rule deliver_all_attempts)
  show "\<forall>d \<in> set (DEST_LIST cfg). \<exists>c ok. Attempt c ok \<in> set (snd ?sent) \<and> call_dest c = d"
  proof
    fix d assume "d \<in> set (DEST_LIST cfg)"
    then show "\<exists>c ok. Attempt c ok \<in> set (snd ?sent) \<and> call_dest c = d"
      by (rule deliver_all_reaches [OF calls_for_first])
  qed
qed


theorem record_committed_once_after_all_attempts_witness:
  "(SOURCE_CHANNEL_ID sample_config = [] \<or>
      py_str (msg_chat_id sticker_post) = SOURCE_CHANNEL_ID sample_config) \<and>
   \<not> already_forwarded {} (msg_chat_id sticker_post) (msg_message_id sticker_post) \<and>
   handle_channel_post cpython sample_config always_raises (Some sticker_post) {} () =
     ({(''42'', 7)}, (),
      [Attempt (SendSticker ''@a'' ''STICKER'') False,
       Attempt (SendSticker ''@b'' ''STICKER'') False] @ [Commit ''42'' 7])"
proof -
  have a: "SOURCE_CHANNEL_ID sample_config = [] \<or>
      py_str (msg_chat_id sticker_post) = SOURCE_CHANNEL_ID sample_config"
    by (simp add: sample_rules string_rules)
  have b: "\<not> already_forwarded {} (msg_chat_id sticker_post) (msg_message_id sticker_post)"
    by (simp add: already_forwarded_def)
  have c: "handle_channel_post cpython sample_config always_raises (Some sticker_post) {} () =
     ({(''42'', 7)}, (),
      [Attempt (SendSticker ''@a'' ''STICKER'') False,
       Attempt (SendSticker ''@b'' ''STICKER'') False] @ [Commit ''42'' 7])"
    by (simp add: sample_rules relay_rules library_rules string_rules)
  from record_committed_once_after_all_attempts [OF a b, of cpython always_raises "()"]
  obtain w' attempts where
    "handle_channel_post cpython sample_config always_raises (Some sticker_post) {} () =
       (insert (py_str (msg_chat_id sticker_post), msg_message_id sticker_post) {}, w',
        attempts @ [Commit (py_str (msg_chat_id sticker_post)) (msg_message_id sticker_post)])"
    by blast
  with a b c show ?thesis by (simp only: simp_thms)
qed


section \<open>Dedupe\<close>

lemma handle_channel_post_duplicate:
  assumes "already_forwarded db (msg_chat_id msg) (msg_message_id msg)"
  shows "handle_channel_post lib cfg api (Some msg) db w = (db, w, [])"
  using assms by (simp add: handle_channel_post_def Let_def)

lemma handle_channel_post_keeps_keys:
  "db \<subseteq> fst (handle_channel_post lib cfg api u db w)"
proof (cases u)
  case None
  then show ?thesis by (simp add: handle_channel_post_def)
next
  case (Some msg)
  show ?thesis
  proof (cases "(SOURCE_CHANNEL_ID cfg = [] \<or> py_str (msg_chat_id msg) = SOURCE_CHANNEL_ID cfg) \<and>
      \<not> already_forwarded db (msg_chat_id msg) (msg_message_id msg)")
    case True
    then show ?thesis
      using handle_channel_post_fresh [of cfg msg db lib api w] Some by auto
  next
    case False
    then have "handle_channel_post lib cfg api (Some msg) db w = (db, w, [])"
      by (cases "already_forwarded db (msg_chat_id msg) (msg_message_id msg)")
         (simp_all add: handle_channel_post_def Let_def)
    then show ?thesis using Some by simp
  qed
qed

lemma handle_updates_keeps_keys:
  "db \<subseteq> fst (handle_updates lib cfg api us db w)"
proof (induction us arbitrary: db w)
  case Nil
  then show ?case by simp
next
  case (Cons u us)
  have "db \<subseteq> fst (handle_channel_post lib cfg api u db w)"
    by (rule handle_channel_post_keeps_keys)
  also have "\<dots> \<subseteq> fst (handle_updates lib cfg api us (fst (handle_channel_post lib cfg api u db w))
      (fst (snd (handle_channel_post lib cfg api u db w))))"
    by (rule Cons.IH)
  finally show ?case by (simp add: Let_def)
qed

lemma handle_channel_post_leaves_key:
  assumes "SOURCE_CHANNEL_ID cfg = [] \<or> py_str (msg_chat_id msg) = SOURCE_CHANNEL_ID cfg"
  shows "(py_str (msg_chat_id msg), msg_message_id msg) \<in> fst (handle_channel_post lib cfg api (Some msg) db w)"
proof (cases "already_forwarded db (msg_chat_id msg) (msg_message_id msg)")
  case True
  then show ?thesis
    using handle_channel_post_duplicate [OF True, of lib cfg api w] by (simp add: already_forwarded_def)
next
  case False
  then show ?thesis
    using handle_channel_post_fresh [OF assms False, of lib api w] by simp
qed

text \<open>
  Claim C1. Take two attempts on posts with the same chat id and message id, one after
  the other, with any updates handled between them (none, or any other posts): the
  second attempt starts from the store and the delivery service as the runs before it
  left them. The second attempt makes no call and no commit, and leaves the store and
  the service as they were. When the post passes the source filter, the second attempt
  is skipped by the duplicate check: the key is in the store. (A post the filter rejects
  is skipped in both attempts before the store is read.)
\<close>

theorem second_attempt_is_skipped:
  assumes "handle_channel_post lib cfg api (Some m1) db w = (db1, w1, evs1)"
    and "handle_updates lib cfg api between db1 w1 = (db2, w2, evs2)"
    and "msg_chat_id m2 = msg_chat_id m1" and "msg_message_id m2 = msg_message_id m1"
  shows "handle_channel_post lib2 cfg api2 (Some m2) db2 w2 = (db2, w2, []) \<and>
         (SOURCE_CHANNEL_ID cfg = [] \<or> py_str (msg_chat_id m2) = SOURCE_CHANNEL_ID cfg \<longrightarrow>
            already_forwarded db2 (msg_chat_id m2) (msg_message_id m2))"
proof (cases "SOURCE_CHANNEL_ID cfg = [] \<or> py_str (msg_chat_id m1) = SOURCE_CHANNEL_ID cfg")
  case False
  then show ?thesis using assms(3) by (simp add: handle_channel_post_def Let_def)
next
  case True
  have "(py_str (msg_chat_id m1), msg_message_id m1) \<in> db1"
    using handle_channel_post_leaves_key [OF True, of lib api db w] assms(1) by simp
  moreover have "db1 \<subseteq> db2"
    using handle_updates_keeps_keys [of db1 lib cfg api between w1] assms(2) by simp
  ultimately have seen: "already_forwarded db2 (msg_chat_id m2) (msg_message_id m2)"
    using assms(3,4) by (auto simp: already_forwarded_def)
  show ?thesis
    using seen handle_channel_post_duplicate [OF seen, of lib2 cfg api2 w2] by simp
qed

theorem second_attempt_is_skipped_witness:
  "handle_channel_post cpython sample_config (raises_for ''@a'') (Some sticker_post) {} () =
     ({(''42'', 7)}, (),
      [Attempt (SendSticker ''@a'' ''STICKER'') False,
       Attempt (SendSticker ''@b'' ''STICKER'') True,
       Attempt (SendMessage ''@b'' (post_caption cpython sample_config sticker_post) None) True,
       Commit ''42'' 7]) \<and>
   handle_updates cpython sample_config (raises_for ''@a'')
       [Some (sticker_post \<lparr> msg_message_id := 8 \<rparr>), None] {(''42'', 7)} () =
     ({(''42'', 8), (''42'', 7)}, (),
      [Attempt (SendSticker ''@a'' ''STICKER'') False,
       Attempt (SendSticker ''@b'' ''STICKER'') True,
       Attempt (SendMessage ''@b''
          (post_caption cpython sample_config (sticker_post \<lparr> msg_message_id := 8 \<rparr>)) None) True,
       Commit ''42'' 8]) \<and>
   handle_channel_post cpython sample_config always_raises (Some sticker_post)
       {(''42'', 8), (''42'', 7)} () =
     ({(''42'', 8), (''42'', 7)}, (), []) \<and>
   already_forwarded {(''42'', 8), (''42'', 7)} (msg_chat_id sticker_post) (msg_message_id sticker_post)"
proof -
  have first: "handle_channel_post cpython sample_config (raises_for ''@a'') (Some sticker_post) {} () =
     ({(''42'', 7)}, (),
      [Attempt (SendSticker ''@a'' ''STICKER'') False,
       Attempt (SendSticker ''@b'' ''STICKER'') True,
       Attempt (SendMessage ''@b'' (post_caption cpython sample_config sticker_post) None) True,
       Commit ''42'' 7])"
    by (simp add: sample_rules relay_rules library_rules string_rules)
  have others: "handle_updates cpython sample_config (raises_for ''@a'')
       [Some (sticker_post \<lparr> msg_message_id := 8 \<rparr>), None] {(''42'', 7)} () =
     ({(''42'', 8), (''42'', 7)}, (),
      [Attempt (SendSticker ''@a'' ''STICKER'') False,
       Attempt (SendSticker ''@b'' ''STICKER'') True,
       Attempt (SendMessage ''@b''
          (post_caption cpython sample_config (sticker_post \<lparr> msg_message_id := 8 \<rparr>)) None) True,
       Commit ''42'' 8])"
    by (simp add: sample_rules relay_rules library_rules string_rules)
  have src: "SOURCE_CHANNEL_ID sample_config = [] \<or>
             py_str (msg_chat_id sticker_post) = SOURCE_CHANNEL_ID sample_config"
    by (simp add: sample_rules string_rules)
  note second = second_attempt_is_skipped [OF first others refl refl, of cpython always_raises]
  from second have skipped:
    "handle_channel_post cpython sample_config always_raises (Some sticker_post)
       {(''42'', 8), (''42'', 7)} () = ({(''42'', 8), (''42'', 7)}, (), [])"
    by (rule conjunct1)
  from second src have seen:
    "already_forwarded {(''42'', 8), (''42'', 7)} (msg_chat_id sticker_post) (msg_message_id sticker_post)"
    by blast
  from first others skipped seen show ?thesis by (intro conjI)
qed

end
